theory Spec2Isabelle
  imports Complex_Main
begin

section \<open>Keycloak user API: the request pipeline of backend/api.py\<close>

text \<open>
  The module is sequential glue around the identity service's REST interface: a token
  exchange, a user-creation call, a lookup on conflict and an optional password reset.
  The model below follows the four functions of the module. The network is a function
  from the request sent to the reply received, and every function threads the list of
  requests issued so far, so that statements about which calls are made can be read off
  the result. Log lines are left out: they neither raise nor change a returned value.
\<close>

subsection \<open>Python values\<close>

text \<open>
  What \<open>resp.json()\<close> can return, and what the handler builds: a dict is an association
  list in insertion order. Floats are kept apart from ints because both occur in parsed
  JSON; only their truth value matters here.
\<close>

datatype pyfloat = Finite rat | PosInf | NegInf | NaN

datatype pyval =
    PNone
  | PBool bool
  | PInt int
  | PFloat pyfloat
  | PStr string
  | PList "pyval list"
  | PDict "(string \<times> pyval) list"

text \<open>
  An exception that leaves the handler. \<open>HTTPException\<close> carries the status code and the
  detail the module raises it with; the others are Python's own and are not caught anywhere
  in the module.
\<close>

datatype error =
    HTTPException int string
  | RequestException
  | JSONDecodeError
  | KeyError
  | IndexError
  | TypeError
  | AttributeError

text \<open>Truth value of a Python object, as \<open>if x:\<close> and \<open>and\<close> test it.\<close>

fun py_truthy :: "pyval \<Rightarrow> bool" where
  "py_truthy PNone = False"
| "py_truthy (PBool b) = b"
| "py_truthy (PInt i) = (i \<noteq> 0)"
| "py_truthy (PFloat (Finite q)) = (q \<noteq> 0)"
| "py_truthy (PFloat _) = True"
| "py_truthy (PStr s) = (s \<noteq> [])"
| "py_truthy (PList xs) = (xs \<noteq> [])"
| "py_truthy (PDict kvs) = (kvs \<noteq> [])"

text \<open>\<open>x[key]\<close> with a string key: only a dict accepts it, and a missing key raises.\<close>

fun py_getitem :: "pyval \<Rightarrow> string \<Rightarrow> error + pyval" where
  "py_getitem (PDict kvs) k = (case map_of kvs k of None \<Rightarrow> Inl KeyError | Some v \<Rightarrow> Inr v)"
| "py_getitem _ k = Inl TypeError"

text \<open>
  \<open>x[0]\<close>: the first element of a list, the first character of a string. A dict parsed
  from JSON has string keys only, so the integer key is missing; the remaining values are
  not subscriptable.
\<close>

fun py_first :: "pyval \<Rightarrow> error + pyval" where
  "py_first (PList []) = Inl IndexError"
| "py_first (PList (x # xs)) = Inr x"
| "py_first (PStr []) = Inl IndexError"
| "py_first (PStr (c # cs)) = Inr (PStr [c])"
| "py_first (PDict kvs) = Inl KeyError"
| "py_first _ = Inl TypeError"

text \<open>\<open>x.get(key)\<close>: a dict answers with the value or \<open>None\<close>; nothing else has the method.\<close>

fun py_get :: "pyval \<Rightarrow> string \<Rightarrow> error + pyval" where
  "py_get (PDict kvs) k = Inr (case map_of kvs k of None \<Rightarrow> PNone | Some v \<Rightarrow> v)"
| "py_get _ k = Inl AttributeError"

text \<open>\<open>d.get(key)\<close> where \<open>d\<close> is known to be a dict.\<close>

definition dict_get :: "(string \<times> pyval) list \<Rightarrow> string \<Rightarrow> pyval" where
  "dict_get d k = (case map_of d k of None \<Rightarrow> PNone | Some v \<Rightarrow> v)"

text \<open>An \<open>Optional[str]\<close> attribute as a Python value.\<close>

definition of_optional :: "string option \<Rightarrow> pyval" where
  "of_optional x = (case x of None \<Rightarrow> PNone | Some s \<Rightarrow> PStr s)"

subsection \<open>Strings\<close>

text \<open>\<open>s.rstrip(c)\<close> and \<open>s.split(c)\<close> for a one-character argument, \<open>xs[-1]\<close>.\<close>

definition rstrip :: "char \<Rightarrow> string \<Rightarrow> string" where
  "rstrip c s = rev (dropWhile (\<lambda>x. x = c) (rev s))"

fun split :: "char \<Rightarrow> string \<Rightarrow> string list" where
  "split sep [] = [] # []"
| "split sep (c # cs) =
     (if c = sep then [] # split sep cs
      else (case split sep cs of [] \<Rightarrow> [c] # [] | x # xs \<Rightarrow> (c # x) # xs))"

definition py_last :: "'a list \<Rightarrow> error + 'a" where
  "py_last xs = (case xs of [] \<Rightarrow> Inl IndexError | _ # _ \<Rightarrow> Inr (last xs))"

subsection \<open>Configuration, requests and replies\<close>

text \<open>
  The module-level settings, read from the environment when the module is loaded. The two
  admin credentials have no default and may be \<open>None\<close>. \<open>KEYCLOAK_BASE\<close> is the value after
  its trailing slashes were removed.
\<close>

record config =
  KEYCLOAK_BASE :: string
  KEYCLOAK_REALM :: string
  KEYCLOAK_ADMIN_REALM :: string
  KEYCLOAK_ADMIN_USER :: "string option"
  KEYCLOAK_ADMIN_PASS :: "string option"
  KEYCLOAK_CLIENT_ID :: string

text \<open>The request body model \<open>UserCreate\<close>, after validation.\<close>

record UserCreate =
  username :: string
  email :: "string option"
  firstName :: "string option"
  lastName :: "string option"
  password :: "string option"
  enabled :: bool
  emailVerified :: bool

datatype http_method = POST | GET | PUT

text \<open>
  One call of \<open>requests.post\<close>, \<open>requests.get\<close> or \<open>requests.put\<close> with its keyword
  arguments; an argument that is not passed is \<open>None\<close>.
\<close>

record request =
  req_method :: http_method
  req_url :: string
  req_data :: "(string \<times> pyval) list option"
  req_json :: "pyval option"
  req_params :: "(string \<times> pyval) list option"
  req_headers :: "(string \<times> string) list option"
  req_timeout :: int

text \<open>
  The reply: \<open>headers\<close> is the lookup of the response's header dictionary, \<open>json\<close> is
  \<open>None\<close> when the body does not parse, in which case \<open>resp.json()\<close> raises.
\<close>

record response =
  status_code :: int
  headers :: "string \<rightharpoonup> string"
  json :: "pyval option"

text \<open>
  What the module runs against. \<open>transport\<close> answers a request, or answers nothing when the
  call raises (connection failure, timeout). \<open>py_str\<close> is Python's conversion of a value that
  is not a string, as an f-string applies it; the module relies on it only to build a header
  and a URL.
\<close>

record world =
  transport :: "request \<Rightarrow> response option"
  py_str :: "pyval \<Rightarrow> string"

type_synonym trace = "request list"

definition format_value :: "world \<Rightarrow> pyval \<Rightarrow> string" where
  "format_value w v = (case v of PStr s \<Rightarrow> s | _ \<Rightarrow> py_str w v)"

definition send :: "world \<Rightarrow> request \<Rightarrow> trace \<Rightarrow> response option \<times> trace" where
  "send w rq tr = (transport w rq, tr @ [rq])"

subsection \<open>get_admin_token\<close>

definition token_request :: "config \<Rightarrow> request" where
  "token_request cfg =
     \<lparr> req_method = POST,
       req_url = KEYCLOAK_BASE cfg @ ''/realms/'' @ KEYCLOAK_ADMIN_REALM cfg
                 @ ''/protocol/openid-connect/token'',
       req_data = Some [(''grant_type'', PStr ''password''),
                        (''client_id'', PStr (KEYCLOAK_CLIENT_ID cfg)),
                        (''username'', of_optional (KEYCLOAK_ADMIN_USER cfg)),
                        (''password'', of_optional (KEYCLOAK_ADMIN_PASS cfg))],
       req_json = None,
       req_params = None,
       req_headers = None,
       req_timeout = 10 \<rparr>"

definition get_admin_token :: "world \<Rightarrow> config \<Rightarrow> trace \<Rightarrow> (error + pyval) \<times> trace" where
  "get_admin_token w cfg tr =
     (case send w (token_request cfg) tr of
        (None, tr1) \<Rightarrow> (Inl RequestException, tr1)
      | (Some resp, tr1) \<Rightarrow>
          if status_code resp \<noteq> 200
          then (Inl (HTTPException 502 ''Failed to obtain Keycloak admin token''), tr1)
          else (case json resp of
                  None \<Rightarrow> (Inl JSONDecodeError, tr1)
                | Some j \<Rightarrow> (py_getitem j ''access_token'', tr1)))"

subsection \<open>create_keycloak_user\<close>

definition auth_headers :: "world \<Rightarrow> pyval \<Rightarrow> (string \<times> string) list" where
  "auth_headers w token =
     [(''Authorization'', ''Bearer '' @ format_value w token),
      (''Content-Type'', ''application/json'')]"

definition users_url :: "config \<Rightarrow> string \<Rightarrow> string" where
  "users_url cfg realm = KEYCLOAK_BASE cfg @ ''/admin/realms/'' @ realm @ ''/users''"

definition create_request ::
  "world \<Rightarrow> config \<Rightarrow> pyval \<Rightarrow> string \<Rightarrow> (string \<times> pyval) list \<Rightarrow> request" where
  "create_request w cfg token realm payload =
     \<lparr> req_method = POST,
       req_url = users_url cfg realm,
       req_data = None,
       req_json = Some (PDict payload),
       req_params = None,
       req_headers = Some (auth_headers w token),
       req_timeout = 10 \<rparr>"

definition lookup_request ::
  "world \<Rightarrow> config \<Rightarrow> pyval \<Rightarrow> string \<Rightarrow> (string \<times> pyval) list \<Rightarrow> request" where
  "lookup_request w cfg token realm payload =
     \<lparr> req_method = GET,
       req_url = users_url cfg realm,
       req_data = None,
       req_json = None,
       req_params = Some [(''username'', dict_get payload ''username'')],
       req_headers = Some (auth_headers w token),
       req_timeout = 10 \<rparr>"

text \<open>The identifier is the last path segment of the \<open>Location\<close> header.\<close>

definition location_id :: "string \<Rightarrow> error + pyval" where
  "location_id location =
     (if location \<noteq> []
      then (case py_last (split CHR ''/'' (rstrip CHR ''/'' location)) of
              Inl e \<Rightarrow> Inl e
            | Inr s \<Rightarrow> Inr (PStr s))
      else Inr (PStr []))"

definition create_keycloak_user ::
  "world \<Rightarrow> config \<Rightarrow> pyval \<Rightarrow> string \<Rightarrow> (string \<times> pyval) list \<Rightarrow> trace
     \<Rightarrow> (error + pyval) \<times> trace" where
  "create_keycloak_user w cfg token realm payload tr =
     (case send w (create_request w cfg token realm payload) tr of
        (None, tr1) \<Rightarrow> (Inl RequestException, tr1)
      | (Some resp, tr1) \<Rightarrow>
          if status_code resp = 201 then
            (let location = (case headers resp ''Location'' of None \<Rightarrow> [] | Some v \<Rightarrow> v)
             in (location_id location, tr1))
          else if status_code resp = 409 then
            (case send w (lookup_request w cfg token realm payload) tr1 of
               (None, tr2) \<Rightarrow> (Inl RequestException, tr2)
             | (Some r, tr2) \<Rightarrow>
                 if status_code r = 200 then
                   (case json r of
                      None \<Rightarrow> (Inl JSONDecodeError, tr2)
                    | Some j \<Rightarrow>
                        if py_truthy j then
                          (case py_first j of
                             Inl e \<Rightarrow> (Inl e, tr2)
                           | Inr x \<Rightarrow> (py_get x ''id'', tr2))
                        else (Inl (HTTPException 409 ''User already exists''), tr2))
                 else (Inl (HTTPException 409 ''User already exists''), tr2))
          else (Inl (HTTPException 502 ''Failed to create user in Keycloak''), tr1))"

subsection \<open>set_user_password\<close>

definition reset_request ::
  "world \<Rightarrow> config \<Rightarrow> pyval \<Rightarrow> string \<Rightarrow> pyval \<Rightarrow> string \<Rightarrow> bool \<Rightarrow> request" where
  "reset_request w cfg token realm user_id pw temporary =
     \<lparr> req_method = PUT,
       req_url = users_url cfg realm @ ''/'' @ format_value w user_id @ ''/reset-password'',
       req_data = None,
       req_json = Some (PDict [(''type'', PStr ''password''), (''value'', PStr pw),
                               (''temporary'', PBool temporary)]),
       req_params = None,
       req_headers = Some (auth_headers w token),
       req_timeout = 10 \<rparr>"

definition set_user_password ::
  "world \<Rightarrow> config \<Rightarrow> pyval \<Rightarrow> string \<Rightarrow> pyval \<Rightarrow> string \<Rightarrow> bool \<Rightarrow> trace
     \<Rightarrow> (error + unit) \<times> trace" where
  "set_user_password w cfg token realm user_id pw temporary tr =
     (if pw = [] then (Inr (), tr)
      else (case send w (reset_request w cfg token realm user_id pw temporary) tr of
              (None, tr1) \<Rightarrow> (Inl RequestException, tr1)
            | (Some resp, tr1) \<Rightarrow>
                if status_code resp \<noteq> 204
                then (Inl (HTTPException 502 ''Failed to set user password''), tr1)
                else (Inr (), tr1)))"

subsection \<open>create_user\<close>

text \<open>The dict the handler builds from the request, with the \<open>None\<close> values removed.\<close>

definition user_payload :: "UserCreate \<Rightarrow> (string \<times> pyval) list" where
  "user_payload u =
     filter (\<lambda>(k, v). v \<noteq> PNone)
       [(''username'', PStr (username u)),
        (''email'', of_optional (email u)),
        (''firstName'', of_optional (firstName u)),
        (''lastName'', of_optional (lastName u)),
        (''enabled'', PBool (enabled u)),
        (''emailVerified'', PBool (emailVerified u))]"

definition user_response :: "pyval \<Rightarrow> UserCreate \<Rightarrow> pyval" where
  "user_response user_id u = PDict [(''id'', user_id), (''username'', PStr (username u))]"

definition create_user :: "world \<Rightarrow> config \<Rightarrow> UserCreate \<Rightarrow> trace \<Rightarrow> (error + pyval) \<times> trace" where
  "create_user w cfg u tr =
     (case get_admin_token w cfg tr of
        (Inl e, tr1) \<Rightarrow> (Inl e, tr1)
      | (Inr token, tr1) \<Rightarrow>
          (case create_keycloak_user w cfg token (KEYCLOAK_REALM cfg) (user_payload u) tr1 of
             (Inl e, tr2) \<Rightarrow> (Inl e, tr2)
           | (Inr user_id, tr2) \<Rightarrow>
               (case password u of
                  None \<Rightarrow> (Inr (user_response user_id u), tr2)
                | Some pw \<Rightarrow>
                    if pw \<noteq> [] then
                      (case set_user_password w cfg token (KEYCLOAK_REALM cfg) user_id pw False tr2 of
                         (Inl e, tr3) \<Rightarrow> (Inl e, tr3)
                       | (Inr _, tr3) \<Rightarrow> (Inr (user_response user_id u), tr3))
                    else (Inr (user_response user_id u), tr2))))"

subsection \<open>Replies seen by one request\<close>

text \<open>
  The replies the network gives to the three calls that follow the token exchange, for a
  request \<open>u\<close> handled with the bearer token \<open>token\<close>.
\<close>

definition creation_reply :: "world \<Rightarrow> config \<Rightarrow> pyval \<Rightarrow> UserCreate \<Rightarrow> response option" where
  "creation_reply w cfg token u =
     transport w (create_request w cfg token (KEYCLOAK_REALM cfg) (user_payload u))"

definition lookup_reply :: "world \<Rightarrow> config \<Rightarrow> pyval \<Rightarrow> UserCreate \<Rightarrow> response option" where
  "lookup_reply w cfg token u =
     transport w (lookup_request w cfg token (KEYCLOAK_REALM cfg) (user_payload u))"

definition reset_reply ::
  "world \<Rightarrow> config \<Rightarrow> pyval \<Rightarrow> pyval \<Rightarrow> string \<Rightarrow> response option" where
  "reset_reply w cfg token user_id pw =
     transport w (reset_request w cfg token (KEYCLOAK_REALM cfg) user_id pw False)"

subsection \<open>A scripted identity service\<close>

text \<open>
  A network with one fixed reply per kind of call: the token exchange is the POST with form
  data, the creation call the POST with a JSON body, the lookup the GET and the password
  reset the PUT. It is used to run the pipeline on concrete inputs.
\<close>

definition stub_world ::
  "response option \<Rightarrow> response option \<Rightarrow> response option \<Rightarrow> response option \<Rightarrow> world" where
  "stub_world tok cre look rst =
     \<lparr> transport = (\<lambda>rq. case req_method rq of
                            POST \<Rightarrow> (if req_json rq = None then tok else cre)
                          | GET \<Rightarrow> look
                          | PUT \<Rightarrow> rst),
       py_str = (\<lambda>v. []) \<rparr>"

definition reply :: "int \<Rightarrow> (string \<times> string) list \<Rightarrow> pyval option \<Rightarrow> response option" where
  "reply code hs body = Some \<lparr> status_code = code, headers = map_of hs, json = body \<rparr>"

definition token_ok :: "response option" where
  "token_ok = reply 200 [] (Some (PDict [(''access_token'', PStr ''tok'')]))"

text \<open>The settings the module falls back to, with admin credentials supplied.\<close>

definition demo_config :: config where
  "demo_config =
     \<lparr> KEYCLOAK_BASE = ''http://localhost:8080'',
       KEYCLOAK_REALM = ''master'',
       KEYCLOAK_ADMIN_REALM = ''master'',
       KEYCLOAK_ADMIN_USER = Some ''admin'',
       KEYCLOAK_ADMIN_PASS = Some ''secret'',
       KEYCLOAK_CLIENT_ID = ''admin-cli'' \<rparr>"

text \<open>A request that leaves out email, last name and password, and one with a password.\<close>

definition alice :: UserCreate where
  "alice = \<lparr> username = ''alice'', email = None, firstName = Some ''Alice'', lastName = None,
             password = None, enabled = True, emailVerified = False \<rparr>"

definition alice_pw :: UserCreate where
  "alice_pw = alice \<lparr> password := Some ''s3cret'' \<rparr>"

text \<open>The service knows the user already and finds it; the password reset is refused.\<close>

definition conflict_found :: "pyval" where
  "conflict_found = PList [PDict [(''id'', PStr ''abc-123'')]]"

definition conflict_reset_refused :: world where
  "conflict_reset_refused =
     stub_world token_ok (reply 409 [] None) (reply 200 [] (Some conflict_found))
       (reply 500 [] None)"

definition conflict_reset_done :: world where
  "conflict_reset_done =
     stub_world token_ok (reply 409 [] None) (reply 200 [] (Some conflict_found))
       (reply 204 [] None)"

text \<open>The token exchange is refused; every later call would have succeeded.\<close>

definition token_refused :: world where
  "token_refused =
     stub_world (reply 401 [] None)
       (reply 201 [(''Location'', ''http://localhost:8080/admin/realms/master/users/u-1'')] None)
       None (reply 204 [] None)"

text \<open>
  The service knows the user already, but the lookup comes back without an identifier:
  once with an entry that has no \<open>id\<close>, once with no entry at all.
\<close>

definition conflict_no_id :: world where
  "conflict_no_id =
     stub_world token_ok (reply 409 [] None)
       (reply 200 [] (Some (PList [PDict [(''username'', PStr ''alice'')]]))) None"

definition conflict_empty :: world where
  "conflict_empty = stub_world token_ok (reply 409 [] None) (reply 200 [] (Some (PList []))) None"

text \<open>The user is created: with and without a \<open>Location\<close> header, and with the reset refused.\<close>

definition created :: world where
  "created =
     stub_world token_ok
       (reply 201 [(''Location'', ''http://localhost:8080/admin/realms/master/users/u-1'')] None)
       None (reply 204 [] None)"

definition created_no_location :: world where
  "created_no_location = stub_world token_ok (reply 201 [] None) None (reply 204 [] None)"

definition created_reset_refused :: world where
  "created_reset_refused =
     stub_world token_ok
       (reply 201 [(''Location'', ''http://localhost:8080/admin/realms/master/users/u-1'')] None)
       None (reply 403 [] None)"

definition alice_empty_pw :: UserCreate where
  "alice_empty_pw = alice \<lparr> password := Some [] \<rparr>"

section \<open>Which calls a request makes\<close>

lemma get_admin_token_trace: "snd (get_admin_token w cfg tr) = tr @ [token_request cfg]"
  by (simp add: get_admin_token_def send_def split: option.splits)

lemma set_user_password_trace:
  "snd (set_user_password w cfg token realm user_id pw temporary tr) =
     (if pw = [] then tr else tr @ [reset_request w cfg token realm user_id pw temporary])"
  by (simp add: set_user_password_def send_def split: option.splits)

lemma create_keycloak_user_trace:
  "snd (create_keycloak_user w cfg token realm payload tr) =
     tr @ [create_request w cfg token realm payload]
   \<or> (\<exists>resp. transport w (create_request w cfg token realm payload) = Some resp
          \<and> status_code resp = 409
          \<and> snd (create_keycloak_user w cfg token realm payload tr) =
              tr @ [create_request w cfg token realm payload,
                    lookup_request w cfg token realm payload])"
  by (simp add: create_keycloak_user_def send_def Let_def split: option.splits sum.splits)

text \<open>
  The calls of the handler: the token exchange, then those of the provisioner, then at most
  one password reset.
\<close>

lemma create_user_trace:
  "snd (create_user w cfg u tr) = tr @ [token_request cfg]
   \<or> (\<exists>token. fst (get_admin_token w cfg tr) = Inr token
        \<and> (snd (create_user w cfg u tr) =
              snd (create_keycloak_user w cfg token (KEYCLOAK_REALM cfg) (user_payload u)
                     (tr @ [token_request cfg]))
           \<or> (\<exists>uid pw. password u = Some pw \<and> pw \<noteq> []
                 \<and> fst (create_keycloak_user w cfg token (KEYCLOAK_REALM cfg) (user_payload u)
                          (tr @ [token_request cfg])) = Inr uid
                 \<and> snd (create_user w cfg u tr) =
                     snd (create_keycloak_user w cfg token (KEYCLOAK_REALM cfg) (user_payload u)
                            (tr @ [token_request cfg]))
                     @ [reset_request w cfg token (KEYCLOAK_REALM cfg) uid pw False])))"
proof (cases "get_admin_token w cfg tr")
  case (Pair r1 tr1)
  have tr1: "tr1 = tr @ [token_request cfg]"
    using get_admin_token_trace [of w cfg tr] Pair by simp
  show ?thesis
  proof (cases r1)
    case (Inl e)
    then show ?thesis using Pair tr1 by (simp add: create_user_def)
  next
    case (Inr token)
    obtain r2 tr2 where c: "create_keycloak_user w cfg token (KEYCLOAK_REALM cfg) (user_payload u) tr1 = (r2, tr2)"
      by (cases "create_keycloak_user w cfg token (KEYCLOAK_REALM cfg) (user_payload u) tr1")
    show ?thesis
    proof (cases r2)
      case (Inl e)
      then show ?thesis using Pair Inr c tr1 by (simp add: create_user_def)
    next
      case uid: (Inr uid)
      show ?thesis
      proof (cases "password u")
        case None
        then show ?thesis using Pair Inr c tr1 uid by (simp add: create_user_def)
      next
        case (Some pw)
        show ?thesis
        proof (cases "pw = []")
          case True
          then show ?thesis using Pair Inr c tr1 uid Some by (simp add: create_user_def)
        next
          case False
          have "snd (create_user w cfg u tr) =
                  snd (set_user_password w cfg token (KEYCLOAK_REALM cfg) uid pw False tr2)"
            using Pair Inr c uid Some False
            by (simp add: create_user_def split: prod.splits sum.splits)
          then show ?thesis
            using Pair Inr c tr1 uid Some False set_user_password_trace [of w cfg token "KEYCLOAK_REALM cfg" uid pw False tr2]
            by simp
        qed
      qed
    qed
  qed
qed

lemma create_user_calls:
  assumes "rq \<in> set (snd (create_user w cfg u []))"
  shows "rq = token_request cfg
     \<or> (\<exists>token. fst (get_admin_token w cfg []) = Inr token
          \<and> (rq = create_request w cfg token (KEYCLOAK_REALM cfg) (user_payload u)
             \<or> (rq = lookup_request w cfg token (KEYCLOAK_REALM cfg) (user_payload u)
                  \<and> (\<exists>resp. creation_reply w cfg token u = Some resp \<and> status_code resp = 409))
             \<or> (\<exists>uid pw. password u = Some pw \<and> pw \<noteq> []
                  \<and> fst (create_keycloak_user w cfg token (KEYCLOAK_REALM cfg) (user_payload u)
                            [token_request cfg]) = Inr uid
                  \<and> rq = reset_request w cfg token (KEYCLOAK_REALM cfg) uid pw False)))"
proof (cases "snd (create_user w cfg u []) = [token_request cfg]")
  case True
  then show ?thesis using assms by simp
next
  case False
  then obtain token where tok: "fst (get_admin_token w cfg []) = Inr token"
    and tr: "snd (create_user w cfg u []) =
               snd (create_keycloak_user w cfg token (KEYCLOAK_REALM cfg) (user_payload u)
                      [token_request cfg])
             \<or> (\<exists>uid pw. password u = Some pw \<and> pw \<noteq> []
                   \<and> fst (create_keycloak_user w cfg token (KEYCLOAK_REALM cfg) (user_payload u)
                            [token_request cfg]) = Inr uid
                   \<and> snd (create_user w cfg u []) =
                       snd (create_keycloak_user w cfg token (KEYCLOAK_REALM cfg) (user_payload u)
                              [token_request cfg])
                       @ [reset_request w cfg token (KEYCLOAK_REALM cfg) uid pw False])"
    using create_user_trace [of w cfg u "[]"] by auto
  let ?c = "create_request w cfg token (KEYCLOAK_REALM cfg) (user_payload u)"
  let ?l = "lookup_request w cfg token (KEYCLOAK_REALM cfg) (user_payload u)"
  let ?k = "snd (create_keycloak_user w cfg token (KEYCLOAK_REALM cfg) (user_payload u)
                   [token_request cfg])"
  have k: "?k = [token_request cfg, ?c]
           \<or> ((\<exists>resp. creation_reply w cfg token u = Some resp \<and> status_code resp = 409)
               \<and> ?k = [token_request cfg, ?c, ?l])"
    using create_keycloak_user_trace [of w cfg token "KEYCLOAK_REALM cfg" "user_payload u"
        "[token_request cfg]"]
    by (auto simp: creation_reply_def)
  have "rq \<in> set ?k \<or> (\<exists>uid pw. password u = Some pw \<and> pw \<noteq> []
                   \<and> fst (create_keycloak_user w cfg token (KEYCLOAK_REALM cfg) (user_payload u)
                            [token_request cfg]) = Inr uid
                   \<and> rq = reset_request w cfg token (KEYCLOAK_REALM cfg) uid pw False)"
    using tr assms by auto
  moreover have "rq \<in> set ?k \<Longrightarrow> rq = token_request cfg \<or> rq = ?c
       \<or> (rq = ?l \<and> (\<exists>resp. creation_reply w cfg token u = Some resp \<and> status_code resp = 409))"
    using k by auto
  ultimately show ?thesis using tok by blast
qed


lemma user_payload_absent:
  "email u = None \<Longrightarrow> ''email'' \<notin> fst ` set (user_payload u)"
  "firstName u = None \<Longrightarrow> ''firstName'' \<notin> fst ` set (user_payload u)"
  "lastName u = None \<Longrightarrow> ''lastName'' \<notin> fst ` set (user_payload u)"
  by (auto simp: user_payload_def of_optional_def)

lemma post_json_is_creation:
  assumes "rq \<in> set (snd (create_user w cfg u []))"
    and "req_method rq = POST" and "req_json rq = Some body"
  shows "body = PDict (user_payload u)"
  using create_user_calls [OF assms(1)] assms(2,3)
  by (auto simp: token_request_def create_request_def lookup_request_def reset_request_def)

text \<open>The value a function returns does not depend on the calls issued before it.\<close>

lemma get_admin_token_fst:
  "fst (get_admin_token w cfg tr) = fst (get_admin_token w cfg [])"
  by (simp add: get_admin_token_def send_def split: option.splits)

lemma create_keycloak_user_fst:
  "fst (create_keycloak_user w cfg token realm payload tr) =
   fst (create_keycloak_user w cfg token realm payload [])"
  by (simp add: create_keycloak_user_def send_def Let_def split: option.splits sum.splits)

section \<open>Failure of the token exchange\<close>

text \<open>
  Claim C4. If the token endpoint answers with any status other than 200, the handler
  raises the 502 of the token acquirer, and the token exchange is the only call it has
  issued: no creation call, whatever its token, realm or payload, was sent.
\<close>

theorem token_failure_stops_pipeline:
  assumes "transport w (token_request cfg) = Some resp" and "status_code resp \<noteq> 200"
  shows "create_user w cfg u [] =
           (Inl (HTTPException 502 ''Failed to obtain Keycloak admin token''), [token_request cfg])
         \<and> (\<forall>token realm payload.
               create_request w cfg token realm payload \<notin> set (snd (create_user w cfg u [])))"
  using assms
  by (simp add: create_user_def get_admin_token_def send_def token_request_def create_request_def)

theorem token_failure_stops_pipeline_witness:
  "transport token_refused (token_request demo_config) = reply 401 [] None
   \<and> create_user token_refused demo_config alice [] =
       (Inl (HTTPException 502 ''Failed to obtain Keycloak admin token''),
        [token_request demo_config])"
proof -
  have r: "transport token_refused (token_request demo_config)
             = Some \<lparr> status_code = 401, headers = map_of [], json = None \<rparr>"
    by (simp add: token_refused_def stub_world_def token_request_def reply_def)
  have s: "status_code \<lparr> status_code = 401, headers = map_of [], json = None \<rparr> \<noteq> 200"
    by simp
  show ?thesis
    using token_failure_stops_pipeline [OF r s, of alice] r by (simp add: reply_def)
qed

section \<open>Conflict on creation\<close>

text \<open>
  Claim C1, as stated, fails: with the creation call answered by 409 and the lookup by
  200 and \<open>[{"id": "abc-123"}]\<close>, a request that carries a password goes on to the password
  reset, and when that call is refused the handler raises 502 instead of returning the
  identifier.
\<close>

theorem conflict_lookup_then_reset_refused:
  "fst (get_admin_token conflict_reset_refused demo_config []) = Inr (PStr ''tok'')
   \<and> creation_reply conflict_reset_refused demo_config (PStr ''tok'') alice_pw = reply 409 [] None
   \<and> lookup_reply conflict_reset_refused demo_config (PStr ''tok'') alice_pw
       = reply 200 [] (Some (PList [PDict [(''id'', PStr ''abc-123'')]]))
   \<and> fst (create_user conflict_reset_refused demo_config alice_pw [])
       = Inl (HTTPException 502 ''Failed to set user password'')"
  by (simp add: conflict_reset_refused_def stub_world_def demo_config_def alice_pw_def alice_def
        token_ok_def reply_def conflict_found_def creation_reply_def lookup_reply_def
        create_user_def get_admin_token_def create_keycloak_user_def set_user_password_def
        send_def token_request_def create_request_def lookup_request_def reset_request_def
        user_payload_def of_optional_def)

text \<open>
  Claim C1, amended. If the token exchange succeeds, the creation call is answered by 409
  and the lookup by 200 with a non-empty array whose first element is an object with an
  \<open>id\<close> field, and if moreover the request carries no password, an empty one, or the
  password reset is answered by 204, then the handler returns that identifier as the \<open>id\<close>
  of its response and raises nothing.
\<close>

theorem conflict_resolved:
  assumes "fst (get_admin_token w cfg []) = Inr token"
    and "creation_reply w cfg token u = Some resp" and "status_code resp = 409"
    and "lookup_reply w cfg token u = Some r" and "status_code r = 200"
    and "json r = Some (PList (PDict kvs # rest))" and "map_of kvs ''id'' = Some uid"
    and "case password u of None \<Rightarrow> True
         | Some pw \<Rightarrow> pw = [] \<or> (\<exists>p. reset_reply w cfg token uid pw = Some p \<and> status_code p = 204)"
  shows "fst (create_user w cfg u []) = Inr (PDict [(''id'', uid), (''username'', PStr (username u))])"
proof -
  obtain tr1 where t: "get_admin_token w cfg [] = (Inr token, tr1)"
    using assms(1) by (cases "get_admin_token w cfg []") simp
  have c: "create_keycloak_user w cfg token (KEYCLOAK_REALM cfg) (user_payload u) tr1 =
             (Inr uid, tr1 @ [create_request w cfg token (KEYCLOAK_REALM cfg) (user_payload u),
                              lookup_request w cfg token (KEYCLOAK_REALM cfg) (user_payload u)])"
    using assms(2-7)
    by (simp add: create_keycloak_user_def send_def creation_reply_def lookup_reply_def)
  show ?thesis
    using assms(8) t c
    by (auto simp: create_user_def set_user_password_def send_def reset_reply_def user_response_def
             split: option.splits)
qed

theorem conflict_resolved_witness:
  "fst (create_user conflict_reset_done demo_config alice_pw [])
     = Inr (PDict [(''id'', PStr ''abc-123''), (''username'', PStr ''alice'')])"
proof -
  let ?cre = "\<lparr> status_code = 409, headers = map_of [], json = None \<rparr>"
  let ?look = "\<lparr> status_code = 200, headers = map_of [],
                 json = Some (PList (PDict [(''id'', PStr ''abc-123'')] # [])) \<rparr>"
  let ?rst = "\<lparr> status_code = 204, headers = map_of [], json = None \<rparr>"
  have t: "fst (get_admin_token conflict_reset_done demo_config []) = Inr (PStr ''tok'')"
    by (simp add: conflict_reset_done_def stub_world_def token_ok_def reply_def
          get_admin_token_def send_def token_request_def)
  have c: "creation_reply conflict_reset_done demo_config (PStr ''tok'') alice_pw = Some ?cre"
    by (simp add: conflict_reset_done_def stub_world_def reply_def creation_reply_def
          create_request_def)
  have l: "lookup_reply conflict_reset_done demo_config (PStr ''tok'') alice_pw = Some ?look"
    by (simp add: conflict_reset_done_def stub_world_def reply_def lookup_reply_def
          lookup_request_def conflict_found_def)
  have p: "case password alice_pw of None \<Rightarrow> True
           | Some pw \<Rightarrow> pw = [] \<or> (\<exists>p. reset_reply conflict_reset_done demo_config (PStr ''tok'')
                                          (PStr ''abc-123'') pw = Some p \<and> status_code p = 204)"
    by (simp add: alice_pw_def alice_def conflict_reset_done_def stub_world_def reply_def
          reset_reply_def reset_request_def)
  have "fst (create_user conflict_reset_done demo_config alice_pw [])
          = Inr (PDict [(''id'', PStr ''abc-123''), (''username'', PStr (username alice_pw))])"
    by (rule conflict_resolved [OF t c _ l _ _ _ p,
          where kvs = "[(''id'', PStr ''abc-123'')]" and rest = "[]"]) simp_all
  then show ?thesis by (simp add: alice_pw_def alice_def)
qed

text \<open>
  Claim C2, as stated, fails in its last alternative: a lookup answered by 200 with an
  entry that has no \<open>id\<close> field yields no identifier, yet the provisioner returns \<open>None\<close>
  and the handler answers with \<open>id\<close> null instead of raising the conflict error.
\<close>

theorem conflict_lookup_without_id:
  "fst (get_admin_token conflict_no_id demo_config []) = Inr (PStr ''tok'')
   \<and> creation_reply conflict_no_id demo_config (PStr ''tok'') alice = reply 409 [] None
   \<and> lookup_reply conflict_no_id demo_config (PStr ''tok'') alice
       = reply 200 [] (Some (PList [PDict [(''username'', PStr ''alice'')]]))
   \<and> fst (create_user conflict_no_id demo_config alice [])
       = Inr (PDict [(''id'', PNone), (''username'', PStr ''alice'')])"
  by (simp add: conflict_no_id_def stub_world_def demo_config_def alice_def
        token_ok_def reply_def creation_reply_def lookup_reply_def
        create_user_def get_admin_token_def create_keycloak_user_def
        send_def token_request_def create_request_def lookup_request_def
        user_payload_def of_optional_def user_response_def)

text \<open>
  Claim C2, amended. If the token exchange succeeds and the creation call is answered by
  409, then whenever the lookup is answered by a status other than 200, or by 200 with an
  empty array (or any other JSON value that Python counts as false), the handler raises
  the conflict error 409 "User already exists", hence not the 502 of the generic upstream
  failure.
\<close>

theorem conflict_unresolved:
  assumes "fst (get_admin_token w cfg []) = Inr token"
    and "creation_reply w cfg token u = Some resp" and "status_code resp = 409"
    and "lookup_reply w cfg token u = Some r"
    and "status_code r \<noteq> 200 \<or> (\<exists>j. json r = Some j \<and> \<not> py_truthy j)"
  shows "fst (create_user w cfg u []) = Inl (HTTPException 409 ''User already exists'')"
proof -
  obtain tr1 where t: "get_admin_token w cfg [] = (Inr token, tr1)"
    using assms(1) by (cases "get_admin_token w cfg []") simp
  have "fst (create_keycloak_user w cfg token (KEYCLOAK_REALM cfg) (user_payload u) tr1) =
          Inl (HTTPException 409 ''User already exists'')"
    using assms(2-5)
    by (auto simp: create_keycloak_user_def send_def creation_reply_def lookup_reply_def)
  then obtain tr2 where
    "create_keycloak_user w cfg token (KEYCLOAK_REALM cfg) (user_payload u) tr1 =
       (Inl (HTTPException 409 ''User already exists''), tr2)"
    by (cases "create_keycloak_user w cfg token (KEYCLOAK_REALM cfg) (user_payload u) tr1") simp
  then show ?thesis
    using t by (simp add: create_user_def)
qed

theorem conflict_unresolved_witness:
  "fst (create_user conflict_empty demo_config alice [])
     = Inl (HTTPException 409 ''User already exists'')"
proof -
  let ?cre = "\<lparr> status_code = 409, headers = map_of [], json = None \<rparr>"
  let ?look = "\<lparr> status_code = 200, headers = map_of [], json = Some (PList []) \<rparr>"
  have t: "fst (get_admin_token conflict_empty demo_config []) = Inr (PStr ''tok'')"
    by (simp add: conflict_empty_def stub_world_def token_ok_def reply_def
          get_admin_token_def send_def token_request_def)
  have c: "creation_reply conflict_empty demo_config (PStr ''tok'') alice = Some ?cre"
    by (simp add: conflict_empty_def stub_world_def reply_def creation_reply_def
          create_request_def)
  have l: "lookup_reply conflict_empty demo_config (PStr ''tok'') alice = Some ?look"
    by (simp add: conflict_empty_def stub_world_def reply_def lookup_reply_def
          lookup_request_def)
  have i: "status_code ?look \<noteq> 200 \<or> (\<exists>j. json ?look = Some j \<and> \<not> py_truthy j)"
    by simp
  show ?thesis
    by (rule conflict_unresolved [OF t c _ l i]) simp
qed

section \<open>Creation without a Location header\<close>

text \<open>
  Claim C3. When the creation call is answered by 201 and the reply has no \<open>Location\<close>
  header, or an empty one, the provisioner returns the empty string; every successful
  response of the handler then has \<open>id\<close> equal to the empty string, and the handler does
  succeed when no password reset is due.
\<close>

theorem created_without_location:
  assumes "fst (get_admin_token w cfg []) = Inr token"
    and "creation_reply w cfg token u = Some resp" and "status_code resp = 201"
    and "headers resp ''Location'' = None \<or> headers resp ''Location'' = Some []"
  shows "fst (create_keycloak_user w cfg token (KEYCLOAK_REALM cfg) (user_payload u) tr)
           = Inr (PStr [])
       \<and> (\<forall>body. fst (create_user w cfg u []) = Inr body
             \<longrightarrow> body = PDict [(''id'', PStr []), (''username'', PStr (username u))])
       \<and> (password u = None \<or> password u = Some []
             \<longrightarrow> fst (create_user w cfg u [])
                   = Inr (PDict [(''id'', PStr []), (''username'', PStr (username u))]))"
proof -
  have k: "fst (create_keycloak_user w cfg token (KEYCLOAK_REALM cfg) (user_payload u) tr')
             = Inr (PStr [])" for tr'
    using assms(2-4)
    by (auto simp: create_keycloak_user_def send_def creation_reply_def location_id_def)
  obtain tr1 where t: "get_admin_token w cfg [] = (Inr token, tr1)"
    using assms(1) by (cases "get_admin_token w cfg []") simp
  obtain tr2 where c: "create_keycloak_user w cfg token (KEYCLOAK_REALM cfg) (user_payload u) tr1
                         = (Inr (PStr []), tr2)"
    using k [of tr1]
    by (cases "create_keycloak_user w cfg token (KEYCLOAK_REALM cfg) (user_payload u) tr1") simp
  have b: "fst (create_user w cfg u []) = Inr body
             \<Longrightarrow> body = PDict [(''id'', PStr []), (''username'', PStr (username u))]" for body
  proof (cases "password u")
    case None
    assume "fst (create_user w cfg u []) = Inr body"
    then show ?thesis using t c None by (simp add: create_user_def user_response_def)
  next
    case (Some pw)
    assume r: "fst (create_user w cfg u []) = Inr body"
    obtain r3 tr3 where
      s: "set_user_password w cfg token (KEYCLOAK_REALM cfg) (PStr []) pw False tr2 = (r3, tr3)"
      by (cases "set_user_password w cfg token (KEYCLOAK_REALM cfg) (PStr []) pw False tr2")
    show ?thesis
      using r t c Some s
      by (cases r3; cases "pw = []") (simp_all add: create_user_def user_response_def)
  qed
  have n: "password u = None \<or> password u = Some []
             \<Longrightarrow> fst (create_user w cfg u [])
                   = Inr (PDict [(''id'', PStr []), (''username'', PStr (username u))])"
    using t c by (auto simp: create_user_def user_response_def)
  show ?thesis using k b n by blast
qed

theorem created_without_location_witness:
  "fst (create_user created_no_location demo_config alice [])
     = Inr (PDict [(''id'', PStr []), (''username'', PStr ''alice'')])"
proof -
  let ?cre = "\<lparr> status_code = 201, headers = map_of [], json = None \<rparr>"
  have t: "fst (get_admin_token created_no_location demo_config []) = Inr (PStr ''tok'')"
    by (simp add: created_no_location_def stub_world_def token_ok_def reply_def
          get_admin_token_def send_def token_request_def)
  have c: "creation_reply created_no_location demo_config (PStr ''tok'') alice = Some ?cre"
    by (simp add: created_no_location_def stub_world_def reply_def creation_reply_def
          create_request_def)
  have s: "status_code ?cre = 201"
    by simp
  have h: "headers ?cre ''Location'' = None \<or> headers ?cre ''Location'' = Some []"
    by simp
  have p: "password alice = None \<or> password alice = Some []"
    by (simp add: alice_def)
  have "fst (create_user created_no_location demo_config alice [])
          = Inr (PDict [(''id'', PStr []), (''username'', PStr (username alice))])"
    by (rule created_without_location [OF t c s h, of "[]", THEN conjunct2, THEN conjunct2,
          THEN mp, OF p])
  then show ?thesis by (simp add: alice_def)
qed

section \<open>The handler's result\<close>

text \<open>
  What the handler returns once the token and the identifier are known, and where its
  failures come from.
\<close>

lemma create_user_result:
  assumes "fst (get_admin_token w cfg []) = Inr token"
    and "fst (create_keycloak_user w cfg token (KEYCLOAK_REALM cfg) (user_payload u) []) = Inr uid"
  shows "fst (create_user w cfg u []) =
           (case password u of
              None \<Rightarrow> Inr (user_response uid u)
            | Some pw \<Rightarrow>
                if pw = [] then Inr (user_response uid u)
                else (case reset_reply w cfg token uid pw of
                        None \<Rightarrow> Inl RequestException
                      | Some resp \<Rightarrow>
                          if status_code resp \<noteq> 204
                          then Inl (HTTPException 502 ''Failed to set user password'')
                          else Inr (user_response uid u)))"
proof -
  obtain tr1 where t: "get_admin_token w cfg [] = (Inr token, tr1)"
    using assms(1) by (cases "get_admin_token w cfg []") simp
  obtain tr2 where c: "create_keycloak_user w cfg token (KEYCLOAK_REALM cfg) (user_payload u) tr1
                         = (Inr uid, tr2)"
    using assms(2) create_keycloak_user_fst [of w cfg token "KEYCLOAK_REALM cfg" "user_payload u" tr1]
    by (cases "create_keycloak_user w cfg token (KEYCLOAK_REALM cfg) (user_payload u) tr1") simp
  show ?thesis
    using t c
    by (simp add: create_user_def set_user_password_def send_def reset_reply_def
          split: option.splits)
qed

lemma create_user_failure:
  "fst (get_admin_token w cfg []) = Inl e \<Longrightarrow> fst (create_user w cfg u []) = Inl e"
  "fst (get_admin_token w cfg []) = Inr token \<Longrightarrow>
   fst (create_keycloak_user w cfg token (KEYCLOAK_REALM cfg) (user_payload u) []) = Inl e \<Longrightarrow>
   fst (create_user w cfg u []) = Inl e"
proof -
  show "fst (get_admin_token w cfg []) = Inl e \<Longrightarrow> fst (create_user w cfg u []) = Inl e"
    by (cases "get_admin_token w cfg []") (simp add: create_user_def)
next
  assume a: "fst (get_admin_token w cfg []) = Inr token"
    and b: "fst (create_keycloak_user w cfg token (KEYCLOAK_REALM cfg) (user_payload u) []) = Inl e"
  obtain tr1 where t: "get_admin_token w cfg [] = (Inr token, tr1)"
    using a by (cases "get_admin_token w cfg []") simp
  obtain tr2 where c: "create_keycloak_user w cfg token (KEYCLOAK_REALM cfg) (user_payload u) tr1
                         = (Inl e, tr2)"
    using b create_keycloak_user_fst [of w cfg token "KEYCLOAK_REALM cfg" "user_payload u" tr1]
    by (cases "create_keycloak_user w cfg token (KEYCLOAK_REALM cfg) (user_payload u) tr1") simp
  show "fst (create_user w cfg u []) = Inl e"
    using t c by (simp add: create_user_def)
qed

lemma create_user_success:
  assumes "fst (create_user w cfg u []) = Inr body"
  shows "\<exists>token uid. fst (get_admin_token w cfg []) = Inr token
           \<and> fst (create_keycloak_user w cfg token (KEYCLOAK_REALM cfg) (user_payload u) []) = Inr uid
           \<and> body = user_response uid u"
proof (cases "fst (get_admin_token w cfg [])")
  case (Inl e)
  then show ?thesis using create_user_failure(1) [of w cfg e u] assms by simp
next
  case (Inr token)
  show ?thesis
  proof (cases "fst (create_keycloak_user w cfg token (KEYCLOAK_REALM cfg) (user_payload u) [])")
    case (Inl e)
    then show ?thesis using create_user_failure(2) [OF Inr, of u e] assms by simp
  next
    case uid: (Inr uid)
    have "body = user_response uid u"
      using create_user_result [OF Inr uid] assms
      by (auto split: option.splits if_splits)
    then show ?thesis using Inr uid by blast
  qed
qed

text \<open>Runs of the handler against the scripted service.\<close>

lemma created_run:
  "snd (create_user created demo_config alice []) =
     [token_request demo_config,
      create_request created demo_config (PStr ''tok'') ''master'' (user_payload alice)]"
  by (simp add: created_def stub_world_def demo_config_def alice_def token_ok_def reply_def
        create_user_def get_admin_token_def create_keycloak_user_def send_def token_request_def
        create_request_def user_payload_def of_optional_def location_id_def py_last_def
        Let_def rstrip_def)

lemma created_alice_run:
  "fst (create_user created demo_config alice []) =
     Inr (PDict [(''id'', PStr ''u-1''), (''username'', PStr ''alice'')])"
  by (simp add: created_def stub_world_def demo_config_def alice_def token_ok_def
        reply_def create_user_def get_admin_token_def create_keycloak_user_def
        send_def token_request_def create_request_def
        user_payload_def of_optional_def location_id_def py_last_def Let_def rstrip_def
        user_response_def)

lemma created_pw_run:
  "create_user created demo_config alice_pw [] =
     (Inr (PDict [(''id'', PStr ''u-1''), (''username'', PStr ''alice'')]),
      [token_request demo_config,
       create_request created demo_config (PStr ''tok'') ''master'' (user_payload alice_pw),
       reset_request created demo_config (PStr ''tok'') ''master'' (PStr ''u-1'') ''s3cret'' False])"
  by (simp add: created_def stub_world_def demo_config_def alice_pw_def alice_def token_ok_def
        reply_def create_user_def get_admin_token_def create_keycloak_user_def
        set_user_password_def send_def token_request_def create_request_def reset_request_def
        user_payload_def of_optional_def location_id_def py_last_def Let_def rstrip_def
        user_response_def)

lemma refused_run:
  "create_user created_reset_refused demo_config alice_pw [] =
     (Inl (HTTPException 502 ''Failed to set user password''),
      [token_request demo_config,
       create_request created_reset_refused demo_config (PStr ''tok'') ''master''
         (user_payload alice_pw),
       reset_request created_reset_refused demo_config (PStr ''tok'') ''master'' (PStr ''u-1'')
         ''s3cret'' False])"
  by (simp add: created_reset_refused_def stub_world_def demo_config_def alice_pw_def alice_def
        token_ok_def reply_def create_user_def get_admin_token_def create_keycloak_user_def
        set_user_password_def send_def token_request_def create_request_def reset_request_def
        user_payload_def of_optional_def location_id_def py_last_def Let_def rstrip_def
        user_response_def)

section \<open>The creation payload\<close>

text \<open>
  Claim C5. The creation call is the POST with a JSON body. Its body is the dict built
  from the request, and a field the request leaves out (\<open>email\<close>, \<open>firstName\<close>,
  \<open>lastName\<close>) is not a key of that dict: the key is absent, not mapped to null.
\<close>

theorem omitted_fields_absent:
  assumes "rq \<in> set (snd (create_user w cfg u []))"
    and "req_method rq = POST" and "req_json rq = Some body"
  shows "body = PDict (user_payload u)
       \<and> (email u = None \<longrightarrow> ''email'' \<notin> fst ` set (user_payload u))
       \<and> (firstName u = None \<longrightarrow> ''firstName'' \<notin> fst ` set (user_payload u))
       \<and> (lastName u = None \<longrightarrow> ''lastName'' \<notin> fst ` set (user_payload u))"
  using post_json_is_creation [OF assms] user_payload_absent [of u] by simp

theorem omitted_fields_absent_witness:
  "create_request created demo_config (PStr ''tok'') ''master'' (user_payload alice)
     \<in> set (snd (create_user created demo_config alice []))
   \<and> email alice = None \<and> lastName alice = None
   \<and> ''email'' \<notin> fst ` set (user_payload alice)
   \<and> ''lastName'' \<notin> fst ` set (user_payload alice)"
proof -
  let ?rq = "create_request created demo_config (PStr ''tok'') ''master'' (user_payload alice)"
  have m: "?rq \<in> set (snd (create_user created demo_config alice []))"
    by (simp add: created_run)
  have p: "req_method ?rq = POST"
    by (simp add: create_request_def)
  have j: "req_json ?rq = Some (PDict (user_payload alice))"
    by (simp add: create_request_def)
  have e: "email alice = None" and l: "lastName alice = None"
    by (simp_all add: alice_def)
  note th = omitted_fields_absent [OF m p j]
  show ?thesis
    using m e l th [THEN conjunct2, THEN conjunct1, THEN mp, OF e]
      th [THEN conjunct2, THEN conjunct2, THEN conjunct2, THEN mp, OF l]
    by blast
qed




section \<open>The response body\<close>

text \<open>
  Claim C6. A request that completes successfully is answered by a dict with exactly the
  keys \<open>id\<close> and \<open>username\<close>; and against the same service, the request with any other
  password, if it completes successfully too, is answered by the same body.
\<close>

theorem response_never_echoes_password:
  assumes "fst (create_user w cfg u []) = Inr body"
  shows "(\<exists>uid. body = PDict [(''id'', uid), (''username'', PStr (username u))])
       \<and> (\<forall>p body'. fst (create_user w cfg (u \<lparr> password := p \<rparr>) []) = Inr body'
             \<longrightarrow> body' = body)"
proof -
  obtain token uid where t: "fst (get_admin_token w cfg []) = Inr token"
    and c: "fst (create_keycloak_user w cfg token (KEYCLOAK_REALM cfg) (user_payload u) []) = Inr uid"
    and b: "body = user_response uid u"
    using create_user_success [OF assms] by blast
  have "body' = body" if r: "fst (create_user w cfg (u \<lparr> password := p \<rparr>) []) = Inr body'"
    for p body'
  proof -
    obtain token' uid' where t': "fst (get_admin_token w cfg []) = Inr token'"
      and c': "fst (create_keycloak_user w cfg token' (KEYCLOAK_REALM cfg)
                      (user_payload (u \<lparr> password := p \<rparr>)) []) = Inr uid'"
      and b': "body' = user_response uid' (u \<lparr> password := p \<rparr>)"
      using create_user_success [OF r] by blast
    have "token' = token" using t t' by simp
    moreover have "user_payload (u \<lparr> password := p \<rparr>) = user_payload u"
      by (simp add: user_payload_def)
    ultimately have "uid' = uid" using c c' by simp
    then show ?thesis using b b' by (simp add: user_response_def)
  qed
  then show ?thesis using b by (auto simp: user_response_def)
qed

theorem response_never_echoes_password_witness:
  "fst (create_user created demo_config alice_pw []) =
     Inr (PDict [(''id'', PStr ''u-1''), (''username'', PStr ''alice'')])
   \<and> fst (create_user created demo_config (alice_pw \<lparr> password := None \<rparr>) []) =
     Inr (PDict [(''id'', PStr ''u-1''), (''username'', PStr ''alice'')])"
proof -
  let ?b = "PDict [(''id'', PStr ''u-1''), (''username'', PStr ''alice'')]"
  have a: "fst (create_user created demo_config alice_pw []) = Inr ?b"
    by (simp add: created_pw_run)
  have n: "fst (create_user created demo_config (alice_pw \<lparr> password := None \<rparr>) []) = Inr ?b"
    using created_alice_run by (simp add: alice_pw_def alice_def)
  have "?b = ?b"
    by (rule response_never_echoes_password [OF a, THEN conjunct2, THEN spec, THEN spec,
          THEN mp, OF n])
  then show ?thesis using a n by simp
qed

section \<open>The password reset\<close>

text \<open>
  Claim C7. A request without a password issues no password-reset call (no PUT): its
  calls are the token exchange alone, or the token exchange and the creation call, or
  these two and the lookup, the last only when the creation call was answered by 409.
\<close>

theorem no_password_no_reset:
  assumes "password u = None"
  shows "(\<forall>rq \<in> set (snd (create_user w cfg u [])). req_method rq \<noteq> PUT)
       \<and> (snd (create_user w cfg u []) = [token_request cfg]
          \<or> (\<exists>token. fst (get_admin_token w cfg []) = Inr token
               \<and> (snd (create_user w cfg u []) =
                     [token_request cfg,
                      create_request w cfg token (KEYCLOAK_REALM cfg) (user_payload u)]
                  \<or> ((\<exists>resp. creation_reply w cfg token u = Some resp \<and> status_code resp = 409)
                      \<and> snd (create_user w cfg u []) =
                          [token_request cfg,
                           create_request w cfg token (KEYCLOAK_REALM cfg) (user_payload u),
                           lookup_request w cfg token (KEYCLOAK_REALM cfg) (user_payload u)]))))"
proof -
  have shape: "snd (create_user w cfg u []) = [token_request cfg]
          \<or> (\<exists>token. fst (get_admin_token w cfg []) = Inr token
               \<and> (snd (create_user w cfg u []) =
                     [token_request cfg,
                      create_request w cfg token (KEYCLOAK_REALM cfg) (user_payload u)]
                  \<or> ((\<exists>resp. creation_reply w cfg token u = Some resp \<and> status_code resp = 409)
                      \<and> snd (create_user w cfg u []) =
                          [token_request cfg,
                           create_request w cfg token (KEYCLOAK_REALM cfg) (user_payload u),
                           lookup_request w cfg token (KEYCLOAK_REALM cfg) (user_payload u)])))"
  proof (cases "snd (create_user w cfg u []) = [token_request cfg]")
    case True
    then show ?thesis by simp
  next
    case False
    then obtain token where tok: "fst (get_admin_token w cfg []) = Inr token"
      and tr: "snd (create_user w cfg u []) =
                 snd (create_keycloak_user w cfg token (KEYCLOAK_REALM cfg) (user_payload u)
                        [token_request cfg])"
      using create_user_trace [of w cfg u "[]"] assms by auto
    show ?thesis
      using tok tr
        create_keycloak_user_trace [of w cfg token "KEYCLOAK_REALM cfg" "user_payload u"
          "[token_request cfg]"]
      by (auto simp: creation_reply_def)
  qed
  have "req_method rq \<noteq> PUT" if "rq \<in> set (snd (create_user w cfg u []))" for rq
    using create_user_calls [OF that] assms
    by (auto simp: token_request_def create_request_def lookup_request_def)
  then show ?thesis using shape by blast
qed

theorem no_password_no_reset_witness:
  "password alice = None
   \<and> snd (create_user created demo_config alice []) =
       [token_request demo_config,
        create_request created demo_config (PStr ''tok'') ''master'' (user_payload alice)]
   \<and> req_method (token_request demo_config) \<noteq> PUT
   \<and> req_method (create_request created demo_config (PStr ''tok'') ''master''
        (user_payload alice)) \<noteq> PUT"
proof -
  have p: "password alice = None"
    by (simp add: alice_def)
  note th = no_password_no_reset [OF p, of created demo_config, THEN conjunct1]
  have "req_method (token_request demo_config) \<noteq> PUT"
    by (rule th [THEN bspec]) (simp add: created_run)
  moreover have "req_method (create_request created demo_config (PStr ''tok'') ''master''
        (user_payload alice)) \<noteq> PUT"
    by (rule th [THEN bspec]) (simp add: created_run)
  ultimately show ?thesis using p created_run by simp
qed

text \<open>
  Claim C8. Every password-reset call (PUT) the handler issues is made for a non-empty
  password of the request and carries \<open>temporary\<close> false in its body; when the service
  answers it with 204 the handler succeeds, and with any other status the handler raises
  the 502 "Failed to set user password".
\<close>

theorem password_reset_call:
  assumes "rq \<in> set (snd (create_user w cfg u []))" and "req_method rq = PUT"
  shows "\<exists>token uid pw.
           password u = Some pw \<and> pw \<noteq> []
         \<and> rq = reset_request w cfg token (KEYCLOAK_REALM cfg) uid pw False
         \<and> req_json rq = Some (PDict [(''type'', PStr ''password''), (''value'', PStr pw),
                                        (''temporary'', PBool False)])
         \<and> (\<forall>resp. transport w rq = Some resp \<longrightarrow>
               (status_code resp = 204 \<longrightarrow>
                  fst (create_user w cfg u []) = Inr (user_response uid u))
             \<and> (status_code resp \<noteq> 204 \<longrightarrow>
                  fst (create_user w cfg u []) =
                    Inl (HTTPException 502 ''Failed to set user password'')))"
proof -
  obtain token uid pw where tok: "fst (get_admin_token w cfg []) = Inr token"
    and pw: "password u = Some pw" "pw \<noteq> []"
    and uid: "fst (create_keycloak_user w cfg token (KEYCLOAK_REALM cfg) (user_payload u)
                [token_request cfg]) = Inr uid"
    and rq: "rq = reset_request w cfg token (KEYCLOAK_REALM cfg) uid pw False"
    using create_user_calls [OF assms(1)] assms(2)
    by (auto simp: token_request_def create_request_def lookup_request_def)
  have uid': "fst (create_keycloak_user w cfg token (KEYCLOAK_REALM cfg) (user_payload u) [])
                = Inr uid"
    using uid create_keycloak_user_fst [of w cfg token "KEYCLOAK_REALM cfg" "user_payload u"
        "[token_request cfg]"]
    by simp
  have body: "req_json rq = Some (PDict [(''type'', PStr ''password''), (''value'', PStr pw),
                                         (''temporary'', PBool False)])"
    using rq by (simp add: reset_request_def)
  have res: "(status_code resp = 204 \<longrightarrow>
                  fst (create_user w cfg u []) = Inr (user_response uid u))
             \<and> (status_code resp \<noteq> 204 \<longrightarrow>
                  fst (create_user w cfg u []) =
                    Inl (HTTPException 502 ''Failed to set user password''))"
    if "transport w rq = Some resp" for resp
    using create_user_result [OF tok uid'] pw that rq
    by (simp add: reset_reply_def)
  show ?thesis using pw rq body res by blast
qed

theorem password_reset_call_witness:
  "reset_request created_reset_refused demo_config (PStr ''tok'') ''master'' (PStr ''u-1'')
       ''s3cret'' False
     \<in> set (snd (create_user created_reset_refused demo_config alice_pw []))
   \<and> fst (create_user created_reset_refused demo_config alice_pw []) =
       Inl (HTTPException 502 ''Failed to set user password'')
   \<and> (\<exists>token uid pw.
         reset_request created_reset_refused demo_config (PStr ''tok'') ''master'' (PStr ''u-1'')
           ''s3cret'' False
         = reset_request created_reset_refused demo_config token
             (KEYCLOAK_REALM demo_config) uid pw False
       \<and> password alice_pw = Some pw)"
proof -
  let ?rq = "reset_request created_reset_refused demo_config (PStr ''tok'') ''master''
               (PStr ''u-1'') ''s3cret'' False"
  have m: "?rq \<in> set (snd (create_user created_reset_refused demo_config alice_pw []))"
    by (simp add: refused_run)
  have p: "req_method ?rq = PUT"
    by (simp add: reset_request_def)
  have "\<exists>token uid pw.
         ?rq = reset_request created_reset_refused demo_config token
                 (KEYCLOAK_REALM demo_config) uid pw False
       \<and> password alice_pw = Some pw"
    using password_reset_call [OF m p] by blast
  then show ?thesis using m refused_run by simp
qed

text \<open>
  Claim C9. A request whose password is the empty string is handled exactly as the
  request without a password: the handler returns the same result after the same calls,
  none of them a password reset; the password setter called with the empty string
  returns at once without a call; and the request succeeds whenever the token exchange
  and the provisioner do.
\<close>

theorem empty_password_is_no_password:
  "create_user w cfg (u \<lparr> password := Some [] \<rparr>) tr = create_user w cfg (u \<lparr> password := None \<rparr>) tr
   \<and> set_user_password w cfg token realm uid [] temporary tr = (Inr (), tr)
   \<and> (\<forall>rq \<in> set (snd (create_user w cfg (u \<lparr> password := Some [] \<rparr>) [])). req_method rq \<noteq> PUT)
   \<and> (fst (get_admin_token w cfg []) = Inr token
        \<and> fst (create_keycloak_user w cfg token (KEYCLOAK_REALM cfg) (user_payload u) []) = Inr uid
      \<longrightarrow> fst (create_user w cfg (u \<lparr> password := Some [] \<rparr>) [])
            = Inr (PDict [(''id'', uid), (''username'', PStr (username u))]))"
proof -
  have p: "user_payload (u \<lparr> password := Some [] \<rparr>) = user_payload (u \<lparr> password := None \<rparr>)"
    by (simp add: user_payload_def)
  have e: "create_user w cfg (u \<lparr> password := Some [] \<rparr>) tr
             = create_user w cfg (u \<lparr> password := None \<rparr>) tr"
    by (simp add: create_user_def p user_response_def split: prod.splits sum.splits)
  have s: "set_user_password w cfg token realm uid [] temporary tr = (Inr (), tr)"
    by (simp add: set_user_password_def)
  have n: "req_method rq \<noteq> PUT"
    if "rq \<in> set (snd (create_user w cfg (u \<lparr> password := Some [] \<rparr>) []))" for rq
    using create_user_calls [OF that]
    by (auto simp: token_request_def create_request_def lookup_request_def)
  have r: "fst (create_user w cfg (u \<lparr> password := Some [] \<rparr>) [])
            = Inr (PDict [(''id'', uid), (''username'', PStr (username u))])"
    if "fst (get_admin_token w cfg []) = Inr token"
      and "fst (create_keycloak_user w cfg token (KEYCLOAK_REALM cfg) (user_payload u) []) = Inr uid"
  proof -
    have "user_payload (u \<lparr> password := Some [] \<rparr>) = user_payload u"
      by (simp add: user_payload_def)
    then show ?thesis
      using create_user_result [OF that(1), of "u \<lparr> password := Some [] \<rparr>" uid] that(2)
      by (simp add: user_response_def)
  qed
  show ?thesis using e s n r by blast
qed

theorem empty_password_is_no_password_witness:
  "snd (create_user created demo_config alice_empty_pw []) =
     [token_request demo_config,
      create_request created demo_config (PStr ''tok'') ''master'' (user_payload alice)]
   \<and> fst (create_user created demo_config alice_empty_pw []) =
       Inr (PDict [(''id'', PStr ''u-1''), (''username'', PStr ''alice'')])
   \<and> req_method (create_request created demo_config (PStr ''tok'') ''master''
        (user_payload alice)) \<noteq> PUT"
proof -
  have a: "alice_empty_pw = alice \<lparr> password := Some [] \<rparr>"
    and b: "alice \<lparr> password := None \<rparr> = alice"
    by (simp_all add: alice_empty_pw_def alice_def)
  note th = empty_password_is_no_password [of created demo_config alice]
  have e: "create_user created demo_config alice_empty_pw [] = create_user created demo_config alice []"
    using th [of "[]", THEN conjunct1] a b by simp
  have "req_method (create_request created demo_config (PStr ''tok'') ''master''
        (user_payload alice)) \<noteq> PUT"
    by (rule th [of "[]", THEN conjunct2, THEN conjunct2, THEN conjunct1, THEN bspec])
       (simp add: e [unfolded a] created_run)
  then show ?thesis using e created_run created_alice_run by simp
qed

end
